theory Spec2Isabelle
  imports Main
begin

section \<open>The placeholder packages authvader_sdk and authvital_sdk\<close>

text \<open>
  The repository holds two Python packages, each a single file
  \<^verbatim>\<open>__init__.py\<close> with a module docstring, two string assignments and a
  module-level \<^verbatim>\<open>__getattr__\<close>:
  \<^verbatim>\<open>
  __version__ = "0.0.1"
  __author__ = "AuthVital Contributors"

  def __getattr__(name):
      raise NotImplementedError(
          f"AuthVital Python SDK is coming soon! "
          f"Follow https://github.com/authvital/authvital for updates."
      )
  \<close>
  The two files differ only in the product name (AuthVader, AuthVital) inside their
  string literals.
\<close>

subsection \<open>Values, exceptions, namespaces\<close>

text \<open>
  An exception is its class and its message. Besides the class the packages raise, the
  classes the interpreter itself raises on a failed module attribute access are kept, so
  that "raises NotImplementedError" says something.
\<close>

datatype exc_class = AttributeError | TypeError | NotImplementedError

datatype exn = Exn (exn_class: exc_class) (exn_message: string)

text \<open>The functions the two modules define, by name.\<close>

datatype func = Authvader_sdk_getattr | Authvital_sdk_getattr

text \<open>
  The values an attribute access can yield: strings, the functions above, objects bound
  by the import system (of which only the identity matters here), a type object by its
  name, the module's own namespace object, a dictionary by its items, and an attribute
  that the module type supplies, bound to the module where the type binds it (the method
  \<^verbatim>\<open>__init__\<close> of the module, say), by its name.
\<close>

datatype pyval =
    PyNone
  | PyStr string
  | PyFunction func
  | PyObject nat
  | PyType string
  | PyModuleDict
  | PyDict "(string \<times> pyval) list"
  | PyTypeAttr string

text \<open>
  A module namespace maps attribute names to values. An operation takes the namespace
  and returns its result, a raised exception (\<open>Inl\<close>) or a value (\<open>Inr\<close>), with
  the namespace it leaves behind.
\<close>

type_synonym namespace = "string \<rightharpoonup> pyval"

type_synonym outcome = "(exn + pyval) \<times> namespace"

definition newline :: string where
  "newline = [CHR 0x0A]"

subsection \<open>authvader_sdk\<close>

text \<open>
  The docstring opens with the escape \<^verbatim>\<open>\n\<close> inside a string that is not raw: a
  line feed, followed by the lines as written.
\<close>

definition authvader_sdk_doc :: string where
  "authvader_sdk_doc =
     newline @ ''AuthVader SDK for Python'' @ newline @
     newline @
     ''Official Python SDK for AuthVader Identity Platform.'' @ newline @
     ''https://github.com/authvader/authvader'' @ newline @
     newline @
     ''Status: Coming Soon'' @ newline"

text \<open>
  \<^verbatim>\<open>def __getattr__(name)\<close>: the body is one \<^verbatim>\<open>raise\<close>. The two adjacent
  f-strings have no replacement field; Python joins them into one literal. Nothing is
  stored, so the namespace comes back as it was.
\<close>

definition authvader_sdk_getattr :: "string \<Rightarrow> namespace \<Rightarrow> outcome" where
  "authvader_sdk_getattr name g =
     (Inl (Exn NotImplementedError
        (''AuthVader Python SDK is coming soon! '' @
         ''Follow https://github.com/authvader/authvader for updates.'')), g)"

text \<open>
  Executing the module body: the docstring, the two assignments and the \<^verbatim>\<open>def\<close>
  are four stores into the module namespace, in this order. No statement of the body can
  raise.
\<close>

definition authvader_sdk_init :: "namespace \<Rightarrow> namespace" where
  "authvader_sdk_init g =
     (let g1 = g(''__doc__'' \<mapsto> PyStr authvader_sdk_doc);
          g2 = g1(''__version__'' \<mapsto> PyStr ''0.0.1'');
          g3 = g2(''__author__'' \<mapsto> PyStr ''AuthVader Contributors'');
          g4 = g3(''__getattr__'' \<mapsto> PyFunction Authvader_sdk_getattr)
      in g4)"

subsection \<open>authvital_sdk\<close>

definition authvital_sdk_doc :: string where
  "authvital_sdk_doc =
     newline @ ''AuthVital SDK for Python'' @ newline @
     newline @
     ''Official Python SDK for AuthVital Identity Platform.'' @ newline @
     ''https://github.com/authvital/authvital'' @ newline @
     newline @
     ''Status: Coming Soon'' @ newline"

definition authvital_sdk_getattr :: "string \<Rightarrow> namespace \<Rightarrow> outcome" where
  "authvital_sdk_getattr name g =
     (Inl (Exn NotImplementedError
        (''AuthVital Python SDK is coming soon! '' @
         ''Follow https://github.com/authvital/authvital for updates.'')), g)"

definition authvital_sdk_init :: "namespace \<Rightarrow> namespace" where
  "authvital_sdk_init g =
     (let g1 = g(''__doc__'' \<mapsto> PyStr authvital_sdk_doc);
          g2 = g1(''__version__'' \<mapsto> PyStr ''0.0.1'');
          g3 = g2(''__author__'' \<mapsto> PyStr ''AuthVital Contributors'');
          g4 = g3(''__getattr__'' \<mapsto> PyFunction Authvital_sdk_getattr)
      in g4)"

subsection \<open>Attribute access on a module\<close>

text \<open>Calling a function value with one argument runs the function it names.\<close>

definition call_function :: "func \<Rightarrow> string \<Rightarrow> namespace \<Rightarrow> outcome" where
  "call_function f name g =
     (case f of
        Authvader_sdk_getattr \<Rightarrow> authvader_sdk_getattr name g
      | Authvital_sdk_getattr \<Rightarrow> authvital_sdk_getattr name g)"

text \<open>
  The attributes that the type of every module object supplies besides the three data
  descriptors \<^verbatim>\<open>__class__\<close>, \<^verbatim>\<open>__dict__\<close> and \<^verbatim>\<open>__annotations__\<close>: the
  entries of the dictionaries of \<^verbatim>\<open>module\<close> and \<^verbatim>\<open>object\<close> in CPython 3.11.
\<close>

definition module_type_attrs :: "string list" where
  "module_type_attrs =
     [''__new__'', ''__repr__'', ''__getattribute__'', ''__setattr__'', ''__delattr__'',
      ''__init__'', ''__dir__'', ''__doc__'', ''__hash__'', ''__str__'', ''__lt__'',
      ''__le__'', ''__eq__'', ''__ne__'', ''__gt__'', ''__ge__'', ''__reduce_ex__'',
      ''__reduce__'', ''__getstate__'', ''__subclasshook__'', ''__init_subclass__'',
      ''__format__'', ''__sizeof__'']"

text \<open>
  \<^verbatim>\<open>module.name\<close> as the interpreter evaluates it, in the order of its lookup:
  \<^item> the data descriptors of the module type come first, whatever the namespace binds:
    \<^verbatim>\<open>__class__\<close> is the type, \<^verbatim>\<open>__dict__\<close> the namespace object, and
    \<^verbatim>\<open>__annotations__\<close> the value the namespace binds to that name or, when it binds
    none, a new empty dictionary that the access also stores in the namespace;
  \<^item> then the module namespace;
  \<^item> then the other attributes of the module type;
  \<^item> only when all of these fail, the module's \<^verbatim>\<open>__getattr__\<close> is looked up in the
    namespace and called with the name. A module without the hook raises AttributeError,
    one whose hook is not callable raises TypeError (the interpreter's message texts are
    abbreviated).
\<close>

definition module_getattr :: "string \<Rightarrow> namespace \<Rightarrow> outcome" where
  "module_getattr name g =
     (if name = ''__class__'' then (Inr (PyType ''module''), g)
      else if name = ''__dict__'' then (Inr PyModuleDict, g)
      else if name = ''__annotations__'' then
        (case g ''__annotations__'' of
           Some v \<Rightarrow> (Inr v, g)
         | None \<Rightarrow> (Inr (PyDict []), g(''__annotations__'' \<mapsto> PyDict [])))
      else
        (case g name of
           Some v \<Rightarrow> (Inr v, g)
         | None \<Rightarrow>
             if name \<in> set module_type_attrs then (Inr (PyTypeAttr name), g)
             else
               (case g ''__getattr__'' of
                  None \<Rightarrow> (Inl (Exn AttributeError (''module has no attribute '' @ name)), g)
                | Some (PyFunction f) \<Rightarrow> call_function f name g
                | Some _ \<Rightarrow> (Inl (Exn TypeError ''object is not callable''), g))))"

text \<open>
  The namespace in which the import system runs the body of a package: the names it
  binds beforehand (CPython 3.11, a package loaded from a source file).
\<close>

definition loader_namespace :: "string \<Rightarrow> namespace" where
  "loader_namespace pkg =
     [''__name__'' \<mapsto> PyStr pkg,
      ''__doc__'' \<mapsto> PyNone,
      ''__package__'' \<mapsto> PyStr pkg,
      ''__loader__'' \<mapsto> PyObject 0,
      ''__spec__'' \<mapsto> PyObject 1,
      ''__path__'' \<mapsto> PyObject 2,
      ''__file__'' \<mapsto> PyObject 3,
      ''__cached__'' \<mapsto> PyObject 4,
      ''__builtins__'' \<mapsto> PyObject 5]"

section \<open>Properties\<close>

subsection \<open>Helper facts: the namespace after the module body\<close>

lemma authvader_sdk_init_lookup:
  "authvader_sdk_init g name =
     (if name = ''__getattr__'' then Some (PyFunction Authvader_sdk_getattr)
      else if name = ''__author__'' then Some (PyStr ''AuthVader Contributors'')
      else if name = ''__version__'' then Some (PyStr ''0.0.1'')
      else if name = ''__doc__'' then Some (PyStr authvader_sdk_doc)
      else g name)"
  by (simp add: authvader_sdk_init_def Let_def)

lemma authvital_sdk_init_lookup:
  "authvital_sdk_init g name =
     (if name = ''__getattr__'' then Some (PyFunction Authvital_sdk_getattr)
      else if name = ''__author__'' then Some (PyStr ''AuthVital Contributors'')
      else if name = ''__version__'' then Some (PyStr ''0.0.1'')
      else if name = ''__doc__'' then Some (PyStr authvital_sdk_doc)
      else g name)"
  by (simp add: authvital_sdk_init_def Let_def)

lemma authvader_sdk_init_hook:
  "authvader_sdk_init g ''__getattr__'' = Some (PyFunction Authvader_sdk_getattr)"
  by (simp add: authvader_sdk_init_lookup)

lemma authvital_sdk_init_hook:
  "authvital_sdk_init g ''__getattr__'' = Some (PyFunction Authvital_sdk_getattr)"
  by (simp add: authvital_sdk_init_lookup)

lemma authvader_sdk_init_annotations:
  "authvader_sdk_init g ''__annotations__'' = g ''__annotations__''"
  by (simp add: authvader_sdk_init_lookup)

lemma authvital_sdk_init_annotations:
  "authvital_sdk_init g ''__annotations__'' = g ''__annotations__''"
  by (simp add: authvital_sdk_init_lookup)

text \<open>Attribute access on a loaded package: the hook is the package's own handler.\<close>

lemma authvader_sdk_access:
  "module_getattr name (authvader_sdk_init g) =
     (if name = ''__class__'' then (Inr (PyType ''module''), authvader_sdk_init g)
      else if name = ''__dict__'' then (Inr PyModuleDict, authvader_sdk_init g)
      else if name = ''__annotations__'' then
        (case g ''__annotations__'' of
           Some v \<Rightarrow> (Inr v, authvader_sdk_init g)
         | None \<Rightarrow>
             (Inr (PyDict []), (authvader_sdk_init g)(''__annotations__'' \<mapsto> PyDict [])))
      else
        (case authvader_sdk_init g name of
           Some v \<Rightarrow> (Inr v, authvader_sdk_init g)
         | None \<Rightarrow>
             if name \<in> set module_type_attrs
             then (Inr (PyTypeAttr name), authvader_sdk_init g)
             else authvader_sdk_getattr name (authvader_sdk_init g)))"
  by (simp add: module_getattr_def call_function_def authvader_sdk_init_hook
      authvader_sdk_init_annotations split: option.split)

lemma authvital_sdk_access:
  "module_getattr name (authvital_sdk_init g) =
     (if name = ''__class__'' then (Inr (PyType ''module''), authvital_sdk_init g)
      else if name = ''__dict__'' then (Inr PyModuleDict, authvital_sdk_init g)
      else if name = ''__annotations__'' then
        (case g ''__annotations__'' of
           Some v \<Rightarrow> (Inr v, authvital_sdk_init g)
         | None \<Rightarrow>
             (Inr (PyDict []), (authvital_sdk_init g)(''__annotations__'' \<mapsto> PyDict [])))
      else
        (case authvital_sdk_init g name of
           Some v \<Rightarrow> (Inr v, authvital_sdk_init g)
         | None \<Rightarrow>
             if name \<in> set module_type_attrs
             then (Inr (PyTypeAttr name), authvital_sdk_init g)
             else authvital_sdk_getattr name (authvital_sdk_init g)))"
  by (simp add: module_getattr_def call_function_def authvital_sdk_init_hook
      authvital_sdk_init_annotations split: option.split)

subsection \<open>The model at concrete inputs\<close>

text \<open>
  On the package as the import system loads it: a name that nothing binds reaches the
  handler; a name the import system bound, and a name the module type supplies, do not.
\<close>

lemma authvital_sdk_login_example:
  "module_getattr ''login'' (authvital_sdk_init (loader_namespace ''authvital_sdk'')) =
     (Inl (Exn NotImplementedError
        ''AuthVital Python SDK is coming soon! Follow https://github.com/authvital/authvital for updates.''),
      authvital_sdk_init (loader_namespace ''authvital_sdk''))"
  by (simp add: authvital_sdk_access authvital_sdk_init_lookup authvital_sdk_getattr_def
      loader_namespace_def module_type_attrs_def)

lemma authvader_sdk_name_example:
  "fst (module_getattr ''__name__'' (authvader_sdk_init (loader_namespace ''authvader_sdk''))) =
     Inr (PyStr ''authvader_sdk'')"
  by (simp add: authvader_sdk_access authvader_sdk_init_lookup loader_namespace_def)

lemma authvader_sdk_repr_example:
  "fst (module_getattr ''__repr__'' (authvader_sdk_init (loader_namespace ''authvader_sdk''))) =
     Inr (PyTypeAttr ''__repr__'')"
  by (simp add: authvader_sdk_access authvader_sdk_init_lookup loader_namespace_def
      module_type_attrs_def)

text \<open>
  The first read of \<^verbatim>\<open>__annotations__\<close> yields an empty dictionary and binds the name;
  the second read finds it bound.
\<close>

lemma authvital_sdk_annotations_example:
  "module_getattr ''__annotations__'' (authvital_sdk_init (loader_namespace ''authvital_sdk'')) =
     (Inr (PyDict []),
      (authvital_sdk_init (loader_namespace ''authvital_sdk''))(''__annotations__'' \<mapsto> PyDict []))
   \<and> module_getattr ''__annotations__''
        ((authvital_sdk_init (loader_namespace ''authvital_sdk''))(''__annotations__'' \<mapsto> PyDict [])) =
     (Inr (PyDict []),
      (authvital_sdk_init (loader_namespace ''authvital_sdk''))(''__annotations__'' \<mapsto> PyDict []))"
proof (rule conjI)
  show "module_getattr ''__annotations__''
          (authvital_sdk_init (loader_namespace ''authvital_sdk'')) =
     (Inr (PyDict []),
      (authvital_sdk_init (loader_namespace ''authvital_sdk''))(''__annotations__'' \<mapsto> PyDict []))"
    by (simp add: authvital_sdk_access loader_namespace_def)
qed (simp add: module_getattr_def)

text \<open>
  A module that defines no handler raises AttributeError instead: the
  NotImplementedError comes from the packages' own \<^verbatim>\<open>__getattr__\<close>.
\<close>

lemma module_without_hook_example:
  "fst (module_getattr ''login'' (loader_namespace ''plain'')) =
     Inl (Exn AttributeError ''module has no attribute login'')"
  by (simp add: module_getattr_def loader_namespace_def module_type_attrs_def)

subsection \<open>The catch-all handler\<close>

text \<open>
  C1: for every attribute name (and every namespace it is called in), the module-level
  \<^verbatim>\<open>__getattr__\<close> of authvader_sdk and of authvital_sdk raises NotImplementedError
  with the package's "coming soon" message; it returns a value for no input.
\<close>

theorem getattr_always_raises:
  "fst (authvader_sdk_getattr name g) =
     Inl (Exn NotImplementedError
       ''AuthVader Python SDK is coming soon! Follow https://github.com/authvader/authvader for updates.'')
   \<and> fst (authvital_sdk_getattr name g) =
     Inl (Exn NotImplementedError
       ''AuthVital Python SDK is coming soon! Follow https://github.com/authvital/authvital for updates.'')
   \<and> (\<forall>v. fst (authvader_sdk_getattr name g) \<noteq> Inr v)
   \<and> (\<forall>v. fst (authvital_sdk_getattr name g) \<noteq> Inr v)"
  by (simp add: authvader_sdk_getattr_def authvital_sdk_getattr_def)

subsection \<open>Version and author\<close>

text \<open>
  C2: after the module body has run, whatever was bound before, each package's namespace
  binds \<^verbatim>\<open>__version__\<close> and \<^verbatim>\<open>__author__\<close>, both to strings ("0.0.1" and
  "<Product> Contributors"), and reading either attribute of the module yields that
  string.
\<close>

theorem version_and_author_strings:
  "authvader_sdk_init g ''__version__'' = Some (PyStr ''0.0.1'')
   \<and> authvader_sdk_init g ''__author__'' = Some (PyStr ''AuthVader Contributors'')
   \<and> authvital_sdk_init g ''__version__'' = Some (PyStr ''0.0.1'')
   \<and> authvital_sdk_init g ''__author__'' = Some (PyStr ''AuthVital Contributors'')
   \<and> fst (module_getattr ''__version__'' (authvader_sdk_init g)) = Inr (PyStr ''0.0.1'')
   \<and> fst (module_getattr ''__author__'' (authvader_sdk_init g)) =
         Inr (PyStr ''AuthVader Contributors'')
   \<and> fst (module_getattr ''__version__'' (authvital_sdk_init g)) = Inr (PyStr ''0.0.1'')
   \<and> fst (module_getattr ''__author__'' (authvital_sdk_init g)) =
         Inr (PyStr ''AuthVital Contributors'')"
  by (simp add: authvader_sdk_access authvital_sdk_access
      authvader_sdk_init_lookup authvital_sdk_init_lookup)

subsection \<open>Everything a module can be observed to do\<close>

text \<open>
  Read as "every attribute access yields the version string, the author string or
  NotImplementedError", C3 fails on the docstring: on a module loaded into an empty
  namespace, \<^verbatim>\<open>authvital_sdk.__doc__\<close> raises nothing and yields the docstring,
  which is neither of the two strings.
\<close>

theorem docstring_is_observable:
  "fst (module_getattr ''__doc__'' (authvital_sdk_init Map.empty)) =
     Inr (PyStr authvital_sdk_doc)
   \<and> authvital_sdk_doc \<noteq> ''0.0.1''
   \<and> authvital_sdk_doc \<noteq> ''AuthVital Contributors''
   \<and> \<not> isl (fst (module_getattr ''__doc__'' (authvital_sdk_init Map.empty)))"
  by (simp add: authvital_sdk_access authvital_sdk_init_lookup authvital_sdk_doc_def
      newline_def)

text \<open>
  C3, amended: the observable behaviours of either module are exactly these, and no
  operation has any other effect or result.
  \<^item> Executing the module body binds \<^verbatim>\<open>__doc__\<close>, \<^verbatim>\<open>__version__\<close>,
    \<^verbatim>\<open>__author__\<close> and \<^verbatim>\<open>__getattr__\<close> to the constant docstring, the two constant
    strings and the handler, and leaves every other name as it was.
  \<^item> Calling \<^verbatim>\<open>__getattr__\<close> raises NotImplementedError with the package's fixed
    message, whatever the name, and leaves the namespace as it was.
  \<^item> Reading an attribute yields, in this order of precedence: for \<^verbatim>\<open>__class__\<close> and
    \<^verbatim>\<open>__dict__\<close> the module type and the namespace object; for
    \<^verbatim>\<open>__annotations__\<close> the value bound to it before the body ran or else a new empty
    dictionary, which the read also binds to that name; for the four names of the body
    their constants; for a name bound before the body ran its value; for any other
    attribute of the module type that attribute; and for every remaining name it raises
    NotImplementedError with the package's fixed message. Apart from the one store for
    \<^verbatim>\<open>__annotations__\<close>, a read leaves the namespace as it was.
\<close>

theorem module_observable_behaviours:
  "authvader_sdk_init g name =
     (if name = ''__doc__'' then Some (PyStr authvader_sdk_doc)
      else if name = ''__version__'' then Some (PyStr ''0.0.1'')
      else if name = ''__author__'' then Some (PyStr ''AuthVader Contributors'')
      else if name = ''__getattr__'' then Some (PyFunction Authvader_sdk_getattr)
      else g name)
   \<and> authvital_sdk_init g name =
     (if name = ''__doc__'' then Some (PyStr authvital_sdk_doc)
      else if name = ''__version__'' then Some (PyStr ''0.0.1'')
      else if name = ''__author__'' then Some (PyStr ''AuthVital Contributors'')
      else if name = ''__getattr__'' then Some (PyFunction Authvital_sdk_getattr)
      else g name)
   \<and> call_function Authvader_sdk_getattr name g =
     (Inl (Exn NotImplementedError
        ''AuthVader Python SDK is coming soon! Follow https://github.com/authvader/authvader for updates.''),
      g)
   \<and> call_function Authvital_sdk_getattr name g =
     (Inl (Exn NotImplementedError
        ''AuthVital Python SDK is coming soon! Follow https://github.com/authvital/authvital for updates.''),
      g)
   \<and> module_getattr name (authvader_sdk_init g) =
     (if name = ''__class__'' then (Inr (PyType ''module''), authvader_sdk_init g)
      else if name = ''__dict__'' then (Inr PyModuleDict, authvader_sdk_init g)
      else if name = ''__annotations__'' then
        (case g ''__annotations__'' of
           Some v \<Rightarrow> (Inr v, authvader_sdk_init g)
         | None \<Rightarrow>
             (Inr (PyDict []), (authvader_sdk_init g)(''__annotations__'' \<mapsto> PyDict [])))
      else if name = ''__doc__'' then (Inr (PyStr authvader_sdk_doc), authvader_sdk_init g)
      else if name = ''__version__'' then (Inr (PyStr ''0.0.1''), authvader_sdk_init g)
      else if name = ''__author__'' then
        (Inr (PyStr ''AuthVader Contributors''), authvader_sdk_init g)
      else if name = ''__getattr__'' then
        (Inr (PyFunction Authvader_sdk_getattr), authvader_sdk_init g)
      else
        (case g name of
           Some v \<Rightarrow> (Inr v, authvader_sdk_init g)
         | None \<Rightarrow>
             if name \<in> set module_type_attrs
             then (Inr (PyTypeAttr name), authvader_sdk_init g)
             else (Inl (Exn NotImplementedError
                ''AuthVader Python SDK is coming soon! Follow https://github.com/authvader/authvader for updates.''),
                authvader_sdk_init g)))
   \<and> module_getattr name (authvital_sdk_init g) =
     (if name = ''__class__'' then (Inr (PyType ''module''), authvital_sdk_init g)
      else if name = ''__dict__'' then (Inr PyModuleDict, authvital_sdk_init g)
      else if name = ''__annotations__'' then
        (case g ''__annotations__'' of
           Some v \<Rightarrow> (Inr v, authvital_sdk_init g)
         | None \<Rightarrow>
             (Inr (PyDict []), (authvital_sdk_init g)(''__annotations__'' \<mapsto> PyDict [])))
      else if name = ''__doc__'' then (Inr (PyStr authvital_sdk_doc), authvital_sdk_init g)
      else if name = ''__version__'' then (Inr (PyStr ''0.0.1''), authvital_sdk_init g)
      else if name = ''__author__'' then
        (Inr (PyStr ''AuthVital Contributors''), authvital_sdk_init g)
      else if name = ''__getattr__'' then
        (Inr (PyFunction Authvital_sdk_getattr), authvital_sdk_init g)
      else
        (case g name of
           Some v \<Rightarrow> (Inr v, authvital_sdk_init g)
         | None \<Rightarrow>
             if name \<in> set module_type_attrs
             then (Inr (PyTypeAttr name), authvital_sdk_init g)
             else (Inl (Exn NotImplementedError
                ''AuthVital Python SDK is coming soon! Follow https://github.com/authvital/authvital for updates.''),
                authvital_sdk_init g)))"
proof (intro conjI)
  show "authvader_sdk_init g name =
     (if name = ''__doc__'' then Some (PyStr authvader_sdk_doc)
      else if name = ''__version__'' then Some (PyStr ''0.0.1'')
      else if name = ''__author__'' then Some (PyStr ''AuthVader Contributors'')
      else if name = ''__getattr__'' then Some (PyFunction Authvader_sdk_getattr)
      else g name)"
    by (simp add: authvader_sdk_init_lookup)
  show "authvital_sdk_init g name =
     (if name = ''__doc__'' then Some (PyStr authvital_sdk_doc)
      else if name = ''__version__'' then Some (PyStr ''0.0.1'')
      else if name = ''__author__'' then Some (PyStr ''AuthVital Contributors'')
      else if name = ''__getattr__'' then Some (PyFunction Authvital_sdk_getattr)
      else g name)"
    by (simp add: authvital_sdk_init_lookup)
qed (simp_all add: call_function_def authvader_sdk_access authvital_sdk_access
    authvader_sdk_init_lookup authvital_sdk_init_lookup
    authvader_sdk_getattr_def authvital_sdk_getattr_def split: option.split)

subsection \<open>When the handler is consulted\<close>

text \<open>
  As worded, C4 fails on the names the module type supplies: on the package as the
  import system loads it, \<^verbatim>\<open>__class__\<close> is not in the module namespace, and yet
  \<^verbatim>\<open>authvital_sdk.__class__\<close> raises nothing: it yields the module type, and the
  handler is not consulted.
\<close>

theorem class_attribute_resolves_unbound:
  "''__class__'' \<notin> dom (authvital_sdk_init (loader_namespace ''authvital_sdk''))
   \<and> module_getattr ''__class__'' (authvital_sdk_init (loader_namespace ''authvital_sdk'')) =
       (Inr (PyType ''module''), authvital_sdk_init (loader_namespace ''authvital_sdk''))
   \<and> \<not> isl (fst (module_getattr ''__class__''
              (authvital_sdk_init (loader_namespace ''authvital_sdk''))))"
  by (simp add: authvital_sdk_access authvital_sdk_init_lookup loader_namespace_def dom_def)

text \<open>
  C4, amended: an attribute access on either module raises NotImplementedError exactly
  when the name is neither bound in the module namespace (the four names the body binds,
  \<^verbatim>\<open>__doc__\<close>, \<^verbatim>\<open>__version__\<close>, \<^verbatim>\<open>__author__\<close>, \<^verbatim>\<open>__getattr__\<close>, and the names
  bound before the body ran) nor supplied by the module type (\<^verbatim>\<open>__class__\<close>,
  \<^verbatim>\<open>__dict__\<close>, \<^verbatim>\<open>__annotations__\<close>, \<^verbatim>\<open>__init__\<close>, \<^verbatim>\<open>__repr__\<close> and the
  like). For every other name nothing at all is raised, and \<^verbatim>\<open>__version__\<close> in
  particular yields "0.0.1": the handler is consulted only for names that neither the
  module type nor the module namespace resolves.
\<close>

theorem raises_iff_name_unresolved:
  "((\<exists>m. fst (module_getattr name (authvader_sdk_init g)) = Inl (Exn NotImplementedError m))
      \<longleftrightarrow> name \<notin> dom (authvader_sdk_init g)
            \<union> {''__class__'', ''__dict__'', ''__annotations__''} \<union> set module_type_attrs)
   \<and> ((\<exists>m. fst (module_getattr name (authvital_sdk_init g)) = Inl (Exn NotImplementedError m))
      \<longleftrightarrow> name \<notin> dom (authvital_sdk_init g)
            \<union> {''__class__'', ''__dict__'', ''__annotations__''} \<union> set module_type_attrs)
   \<and> (isl (fst (module_getattr name (authvader_sdk_init g)))
      \<longleftrightarrow> name \<notin> dom (authvader_sdk_init g)
            \<union> {''__class__'', ''__dict__'', ''__annotations__''} \<union> set module_type_attrs)
   \<and> (isl (fst (module_getattr name (authvital_sdk_init g)))
      \<longleftrightarrow> name \<notin> dom (authvital_sdk_init g)
            \<union> {''__class__'', ''__dict__'', ''__annotations__''} \<union> set module_type_attrs)
   \<and> dom (authvader_sdk_init g) =
       {''__doc__'', ''__version__'', ''__author__'', ''__getattr__''} \<union> dom g
   \<and> dom (authvital_sdk_init g) =
       {''__doc__'', ''__version__'', ''__author__'', ''__getattr__''} \<union> dom g
   \<and> fst (module_getattr ''__version__'' (authvader_sdk_init g)) = Inr (PyStr ''0.0.1'')
   \<and> fst (module_getattr ''__version__'' (authvital_sdk_init g)) = Inr (PyStr ''0.0.1'')"
proof -
  have vader: "isl (fst (module_getattr name (authvader_sdk_init g)))
      \<longleftrightarrow> name \<notin> dom (authvader_sdk_init g)
            \<union> {''__class__'', ''__dict__'', ''__annotations__''} \<union> set module_type_attrs"
    by (auto simp add: authvader_sdk_access authvader_sdk_getattr_def dom_def
        split: option.split)
  have vital: "isl (fst (module_getattr name (authvital_sdk_init g)))
      \<longleftrightarrow> name \<notin> dom (authvital_sdk_init g)
            \<union> {''__class__'', ''__dict__'', ''__annotations__''} \<union> set module_type_attrs"
    by (auto simp add: authvital_sdk_access authvital_sdk_getattr_def dom_def
        split: option.split)
  have vader_exn: "(\<exists>m. fst (module_getattr name (authvader_sdk_init g)) =
        Inl (Exn NotImplementedError m))
      \<longleftrightarrow> isl (fst (module_getattr name (authvader_sdk_init g)))"
    by (auto simp add: authvader_sdk_access authvader_sdk_getattr_def split: option.split)
  have vital_exn: "(\<exists>m. fst (module_getattr name (authvital_sdk_init g)) =
        Inl (Exn NotImplementedError m))
      \<longleftrightarrow> isl (fst (module_getattr name (authvital_sdk_init g)))"
    by (auto simp add: authvital_sdk_access authvital_sdk_getattr_def split: option.split)
  have doms: "dom (authvader_sdk_init g) =
       {''__doc__'', ''__version__'', ''__author__'', ''__getattr__''} \<union> dom g"
    "dom (authvital_sdk_init g) =
       {''__doc__'', ''__version__'', ''__author__'', ''__getattr__''} \<union> dom g"
    by (auto simp add: authvader_sdk_init_lookup authvital_sdk_init_lookup dom_def
        split: if_splits)
  have version: "fst (module_getattr ''__version__'' (authvader_sdk_init g)) =
      Inr (PyStr ''0.0.1'')"
    "fst (module_getattr ''__version__'' (authvital_sdk_init g)) = Inr (PyStr ''0.0.1'')"
    by (simp_all add: authvader_sdk_access authvital_sdk_access
        authvader_sdk_init_lookup authvital_sdk_init_lookup)
  from vader vital vader_exn vital_exn doms version show ?thesis
    by simp
qed

subsection \<open>The outcome does not depend on the name\<close>

text \<open>
  C5: for any two attribute names, in any two namespaces, each package's
  \<^verbatim>\<open>__getattr__\<close> raises the same NotImplementedError: there is one message per
  package that every call carries, so the requested name cannot be told from the outcome.
\<close>

theorem message_independent_of_name:
  "fst (authvader_sdk_getattr n1 g1) = fst (authvader_sdk_getattr n2 g2)
   \<and> fst (authvital_sdk_getattr n1 g1) = fst (authvital_sdk_getattr n2 g2)
   \<and> authvader_sdk_getattr n1 g = authvader_sdk_getattr n2 g
   \<and> authvital_sdk_getattr n1 g = authvital_sdk_getattr n2 g
   \<and> (\<exists>m. \<forall>name g. fst (authvader_sdk_getattr name g) = Inl (Exn NotImplementedError m))
   \<and> (\<exists>m. \<forall>name g. fst (authvital_sdk_getattr name g) = Inl (Exn NotImplementedError m))"
  by (simp add: authvader_sdk_getattr_def authvital_sdk_getattr_def)

subsection \<open>The two handlers against each other\<close>

text \<open>
  C6: with the message erased from the exception, the two packages' \<^verbatim>\<open>__getattr__\<close>
  have the same result on every name, a raised NotImplementedError; both leave the
  namespace as it was; and the exceptions they raise do differ, in the message.
\<close>

theorem getattr_equivalent_up_to_message:
  "map_sum exn_class id (fst (authvader_sdk_getattr name g)) =
     map_sum exn_class id (fst (authvital_sdk_getattr name g))
   \<and> map_sum exn_class id (fst (authvader_sdk_getattr name g)) = Inl NotImplementedError
   \<and> snd (authvader_sdk_getattr name g) = g
   \<and> snd (authvital_sdk_getattr name g) = g
   \<and> fst (authvader_sdk_getattr name g) \<noteq> fst (authvital_sdk_getattr name g)"
  by (simp add: authvader_sdk_getattr_def authvital_sdk_getattr_def)

end
